theory Spec2Isabelle
  imports Complex_Main "HOL-Library.Char_ord" "HOL-Library.List_Lexorder"
begin

section \<open>The ledger: profiles, contracts and jobs\<close>

text \<open>
  The handlers of \<^verbatim>\<open>src/app.js\<close> work on three tables through Sequelize models that
  are declared in \<^verbatim>\<open>./model\<close>. The rows below carry the columns the handlers read or
  write. Identifiers are natural numbers, money is an exact rational number (the decimal
  columns of the store; binary rounding of the JavaScript numbers is outside this
  model), and a timestamp is the text the store keeps and compares.
\<close>

type_synonym timestamp = string

datatype profile_type = client_type | contractor_type

text \<open>Modelled from the spec: the row types of \<^verbatim>\<open>./model\<close> (Profile, Contract, Job),
  with the fields of the data model section: a profile has an id, a type, a balance, a
  profession and name fields; a contract has an id, ClientId, ContractorId, a status,
  terms and createdAt; a job has an id, ContractId, a description, a price, the boolean
  paid and the nullable paymentDate.\<close>

record profile =
  pid :: nat
  firstName :: string
  lastName :: string
  profession :: string
  balance :: rat
  ptype :: profile_type

datatype contract_status = new | in_progress | terminated

record contract =
  cid :: nat
  terms :: string
  status :: contract_status
  createdAt :: timestamp
  ClientId :: nat
  ContractorId :: nat

record job =
  jid :: nat
  description :: string
  price :: rat
  paid :: bool
  paymentDate :: "timestamp option"
  ContractId :: nat

record db =
  profiles :: "profile list"
  contracts :: "contract list"
  jobs :: "job list"

subsection \<open>Store access\<close>

text \<open>\<^verbatim>\<open>Model.findByPk(k)\<close>: the row with primary key \<open>k\<close>, or null.\<close>

definition findByPk :: "('r \<Rightarrow> nat) \<Rightarrow> 'r list \<Rightarrow> nat \<Rightarrow> 'r option" where
  "findByPk key rows k = find (\<lambda>r. key r = k) rows"

text \<open>\<^verbatim>\<open>instance.save()\<close> writes the changed columns of the instance to the row with its
  primary key. The handlers change the balance of a profile, and paid and paymentDate of
  a job.\<close>

definition save_balance :: "nat \<Rightarrow> rat \<Rightarrow> db \<Rightarrow> db" where
  "save_balance k v d =
     d\<lparr>profiles := map (\<lambda>p. if pid p = k then p\<lparr>balance := v\<rparr> else p) (profiles d)\<rparr>"

definition save_paid :: "nat \<Rightarrow> bool \<Rightarrow> timestamp \<Rightarrow> db \<Rightarrow> db" where
  "save_paid k b t d =
     d\<lparr>jobs := map (\<lambda>j. if jid j = k then j\<lparr>paid := b, paymentDate := Some t\<rparr> else j) (jobs d)\<rparr>"

subsection \<open>Errors, transactions and responses\<close>

text \<open>What the handlers throw: \<^verbatim>\<open>new Error(message)\<close>, or the engine's TypeError when a
  property of null is read.\<close>

datatype js_error = Error string | TypeError

text \<open>\<^verbatim>\<open>error.message\<close>: the text given to \<^verbatim>\<open>new Error\<close>, or the engine's own text.\<close>

datatype error_text = Text string | EngineText

fun message :: "js_error \<Rightarrow> error_text" where
  "message (Error m) = Text m"
| "message TypeError = EngineText"

text \<open>\<^verbatim>\<open>sequelize.transaction(callback)\<close>: the callback's writes are committed when it
  returns and rolled back when it throws; the error is thrown on to the caller.\<close>

definition transaction :: "(db \<Rightarrow> js_error + db) \<Rightarrow> db \<Rightarrow> (js_error + unit) \<times> db" where
  "transaction callback d =
     (case callback d of Inl e \<Rightarrow> (Inl e, d) | Inr d' \<Rightarrow> (Inr (), d'))"

record best_client =
  id_col :: nat
  fullName :: string
  paid_col :: rat

datatype json =
    MessageJson string
  | ErrorJson error_text
  | BestProfessionJson string
  | RowsJson "best_client list"

text \<open>\<^verbatim>\<open>res.status(code).json(body)\<close>.\<close>

datatype response = Response nat json

text \<open>The request as Express hands it to a handler: \<^verbatim>\<open>req.profile\<close> is the caller's
  profile that the middleware \<^verbatim>\<open>getProfile\<close> attached, the rest are the path, body and
  query parameters. A query parameter that is absent is \<open>None\<close>.\<close>

record request =
  req_profile :: profile
  job_id :: nat
  userId :: nat
  depositAmount :: rat
  query_start :: "string option"
  query_end :: "string option"
  query_limit :: "string option"

section \<open>Paying for a job\<close>

text \<open>The callback of the transaction in \<^verbatim>\<open>app.post('/jobs/:job_id/pay')\<close>. The job is
  loaded with its contract (\<^verbatim>\<open>include: [Contract]\<close>); both profiles are loaded before
  the caller is compared with the contract's client. The three saves are issued in the
  order of the array given to \<^verbatim>\<open>Promise.all\<close>.\<close>

definition pay_callback :: "timestamp \<Rightarrow> nat \<Rightarrow> nat \<Rightarrow> db \<Rightarrow> js_error + db" where
  "pay_callback now job_id' id' d =
     (case findByPk jid (jobs d) job_id' of
        None \<Rightarrow> Inl (Error ''Job not found'')
      | Some job \<Rightarrow>
          if paid job then Inl (Error ''Already paid'')
          else (case findByPk cid (contracts d) (ContractId job) of
            None \<Rightarrow> Inl TypeError
          | Some Contract \<Rightarrow>
              let contractorId = ContractorId Contract;
                  clientId = ClientId Contract;
                  client = findByPk pid (profiles d) clientId;
                  contractor = findByPk pid (profiles d) contractorId
              in if clientId \<noteq> id' then Inl (Error ''Wrong job id'')
                 else let amountToPay = price job in
                   (case client of
                      None \<Rightarrow> Inl TypeError
                    | Some client \<Rightarrow>
                        if balance client < amountToPay
                        then Inl (Error ''Client's balance is insufficient for payment'')
                        else (case contractor of
                           None \<Rightarrow> Inl TypeError
                         | Some contractor \<Rightarrow>
                             Inr (save_paid (jid job) True now
                                   (save_balance (pid contractor) (balance contractor + amountToPay)
                                     (save_balance (pid client) (balance client - amountToPay) d)))))))"

definition pay :: "timestamp \<Rightarrow> request \<Rightarrow> db \<Rightarrow> response \<times> db" where
  "pay now req d =
     (case transaction (pay_callback now (job_id req) (pid (req_profile req))) d of
        (Inr u, d') \<Rightarrow> (Response 200 (MessageJson ''Payment successful''), d')
      | (Inl error, d') \<Rightarrow> (Response 400 (ErrorJson (message error)), d'))"

section \<open>Depositing into a balance\<close>

text \<open>\<^verbatim>\<open>Job.sum('price', {where: {paid: false, '$Contract.ClientId$': userId},
  include: [{model: Contract}]})\<close>: the jobs joined with their contracts, restricted to
  the unpaid jobs under the contracts of the client.\<close>

definition outstandingJobs :: "db \<Rightarrow> nat \<Rightarrow> (job \<times> contract) list" where
  "outstandingJobs d userId' =
     [(j, c). j \<leftarrow> jobs d, c \<leftarrow> contracts d, cid c = ContractId j,
              \<not> paid j, ClientId c = userId']"

text \<open>The SQL sum: null when there is no row to add up.\<close>

definition sum_price :: "(job \<times> contract) list \<Rightarrow> rat option" where
  "sum_price rows = (if rows = [] then None else Some (sum_list (map (price \<circ> fst) rows)))"

text \<open>The operand of the JavaScript multiplication is converted to a number: null
  becomes 0.\<close>

fun ToNumber :: "rat option \<Rightarrow> rat" where
  "ToNumber None = 0"
| "ToNumber (Some x) = x"

definition maxDepositProcent :: rat where
  "maxDepositProcent = 25 / 100"

definition maxDepositAmount :: "db \<Rightarrow> nat \<Rightarrow> rat" where
  "maxDepositAmount d userId' =
     (let outstandingJobsAmount = sum_price (outstandingJobs d userId')
      in maxDepositProcent * ToNumber outstandingJobsAmount)"

text \<open>The callback of the transaction in \<^verbatim>\<open>app.post('/balances/deposit/:userId')\<close>.\<close>

definition deposit_callback :: "nat \<Rightarrow> rat \<Rightarrow> db \<Rightarrow> js_error + db" where
  "deposit_callback userId' depositAmount' d =
     (case findByPk pid (profiles d) userId' of
        None \<Rightarrow> Inl (Error ''Client not found'')
      | Some client \<Rightarrow>
          if depositAmount' > maxDepositAmount d userId'
          then Inl (Error ''Deposit amount exceeds the maximum allowed'')
          else Inr (save_balance (pid client) (balance client + depositAmount') d))"

text \<open>The route is registered without \<^verbatim>\<open>getProfile\<close>; the handler reads the path
  parameter and the body only.\<close>

definition deposit :: "request \<Rightarrow> db \<Rightarrow> response \<times> db" where
  "deposit req d =
     (case transaction (deposit_callback (userId req) (depositAmount req)) d of
        (Inr u, d') \<Rightarrow> (Response 200 (MessageJson ''Deposit successful''), d')
      | (Inl error, d') \<Rightarrow> (Response 400 (ErrorJson (message error)), d'))"


section \<open>The reports\<close>

text \<open>\<^verbatim>\<open>!start\<close>: a query parameter is falsy when it is absent or the empty string.\<close>

fun falsy :: "string option \<Rightarrow> bool" where
  "falsy None = True"
| "falsy (Some s) = (s = [])"

text \<open>\<^verbatim>\<open>x BETWEEN :start AND :end\<close>: both bounds included, in the order of the store's
  text values (bytewise, a proper prefix first).\<close>

definition between :: "timestamp \<Rightarrow> timestamp \<Rightarrow> timestamp \<Rightarrow> bool" where
  "between x start end' = (start \<le> x \<and> x \<le> end')"

text \<open>The rows of the first query before grouping: contracts joined with the
  contractor's profile and with the jobs, where paymentDate is in the window (a null
  paymentDate is in no window).\<close>

definition profession_rows :: "timestamp \<Rightarrow> timestamp \<Rightarrow> db \<Rightarrow> (profile \<times> job) list" where
  "profession_rows start end' d =
     [(contractor, j). contract \<leftarrow> contracts d, contractor \<leftarrow> profiles d,
        ContractorId contract = pid contractor, j \<leftarrow> jobs d, cid contract = ContractId j,
        (case paymentDate j of None \<Rightarrow> False | Some t \<Rightarrow> between t start end')]"

text \<open>\<^verbatim>\<open>SUM(jobs.price) AS earnings\<close> of the group of one profession.\<close>

definition earnings :: "(profile \<times> job) list \<Rightarrow> string \<Rightarrow> rat" where
  "earnings rows g = sum_list (map (price \<circ> snd) (filter (\<lambda>r. profession (fst r) = g) rows))"

text \<open>\<^verbatim>\<open>GROUP BY contractor.profession ORDER BY earnings DESC LIMIT 1\<close>. The order among
  groups of equal earnings is the store's; here the sort is stable.\<close>

definition best_profession_query :: "timestamp \<Rightarrow> timestamp \<Rightarrow> db \<Rightarrow> (string \<times> rat) list" where
  "best_profession_query start end' d =
     (let rows = profession_rows start end' d;
          groups = remdups (map (profession \<circ> fst) rows)
      in take 1 (sort_key (\<lambda>r. - snd r) (map (\<lambda>g. (g, earnings rows g)) groups)))"

definition bounds_required :: response where
  "bounds_required = Response 400 (ErrorJson (Text ''Both start and end parameters are required''))"

text \<open>\<^verbatim>\<open>app.get('/admin/best-profession')\<close>. A response without an explicit status has
  status 200.\<close>

definition best_profession :: "request \<Rightarrow> db \<Rightarrow> response \<times> db" where
  "best_profession req d =
     (if falsy (query_start req) \<or> falsy (query_end req) then (bounds_required, d)
      else (case (query_start req, query_end req) of
          (Some start, Some end') \<Rightarrow>
            (case best_profession_query start end' d of
               r # rs \<Rightarrow> (Response 200 (BestProfessionJson (fst r)), d)
             | [] \<Rightarrow> (Response 200 (MessageJson ''No data found for the specified time range''), d))
        | other \<Rightarrow> (bounds_required, d)))"

text \<open>\<^verbatim>\<open>parseInt(limit, 10)\<close>: leading white space is skipped (the ASCII white space
  here), a sign is read, then the longest run of decimal digits; without a digit the
  result is NaN, here \<open>None\<close>.\<close>

definition white_space :: "char \<Rightarrow> bool" where
  "white_space c = (c \<in> set [CHR 0x20, CHR 0x09, CHR 0x0A, CHR 0x0B, CHR 0x0C, CHR 0x0D])"

definition digit :: "char \<Rightarrow> bool" where
  "digit c = (CHR ''0'' \<le> c \<and> c \<le> CHR ''9'')"

definition digits_value :: "string \<Rightarrow> int" where
  "digits_value ds = foldl (\<lambda>n c. 10 * n + (int (of_char c) - 48)) 0 ds"

definition parseInt :: "string \<Rightarrow> int option" where
  "parseInt s =
     (let t = dropWhile white_space s;
          negative = (case t of c # u \<Rightarrow> c = CHR ''-'' | [] \<Rightarrow> False);
          u = (case t of c # u \<Rightarrow> if c = CHR ''-'' \<or> c = CHR ''+'' then u else t | [] \<Rightarrow> t);
          ds = takeWhile digit u
      in if ds = [] then None
         else Some (if negative then - digits_value ds else digits_value ds))"

text \<open>The rows of the second query before grouping: jobs joined with their contract and
  the contract's client, where the contract's createdAt is in the window.\<close>

definition client_rows :: "timestamp \<Rightarrow> timestamp \<Rightarrow> db \<Rightarrow> (profile \<times> job) list" where
  "client_rows start end' d =
     [(client, j). j \<leftarrow> jobs d, contract \<leftarrow> contracts d, ContractId j = cid contract,
        client \<leftarrow> profiles d, ClientId contract = pid client,
        between (createdAt contract) start end']"

definition paid_sum :: "(profile \<times> job) list \<Rightarrow> nat \<times> string \<times> string \<Rightarrow> rat" where
  "paid_sum rows g =
     sum_list (map (price \<circ> snd)
       (filter (\<lambda>r. (pid (fst r), firstName (fst r), lastName (fst r)) = g) rows))"

text \<open>\<^verbatim>\<open>GROUP BY client.id, client.firstName, client.lastName ORDER BY paid DESC
  LIMIT :queryLimit\<close>. A negative limit is no limit in the store.\<close>

definition best_clients_query :: "timestamp \<Rightarrow> timestamp \<Rightarrow> int \<Rightarrow> db \<Rightarrow> best_client list" where
  "best_clients_query start end' queryLimit d =
     (let rows = client_rows start end' d;
          groups = remdups (map (\<lambda>r. (pid (fst r), firstName (fst r), lastName (fst r))) rows);
          results = sort_key (\<lambda>r. - paid_col r)
            (map (\<lambda>g. \<lparr>id_col = fst g, fullName = fst (snd g) @ '' '' @ snd (snd g),
                        paid_col = paid_sum rows g\<rparr>) groups)
      in if queryLimit < 0 then results else take (nat queryLimit) results)"

text \<open>\<^verbatim>\<open>app.get('/admin/best-clients')\<close>. The limit is parsed when it is truthy
  (present and not empty) and is 2 otherwise. With a limit that \<^verbatim>\<open>parseInt\<close> turns into NaN
  the store rejects the statement, and the handler answers 500.\<close>

definition best_clients :: "request \<Rightarrow> db \<Rightarrow> response \<times> db" where
  "best_clients req d =
     (if falsy (query_start req) \<or> falsy (query_end req) then (bounds_required, d)
      else (case (query_start req, query_end req) of
          (Some start, Some end') \<Rightarrow>
            (let queryLimit = (case query_limit req of
                                 None \<Rightarrow> Some 2
                               | Some limit \<Rightarrow> if limit = [] then Some 2 else parseInt limit)
             in case queryLimit of
                  None \<Rightarrow> (Response 500 (ErrorJson (Text ''Internal Server Error'')), d)
                | Some n \<Rightarrow> (Response 200 (RowsJson (best_clients_query start end' n d)), d))
        | other \<Rightarrow> (bounds_required, d)))"




section \<open>A small ledger\<close>

text \<open>One client with two unpaid jobs of 200 and 800 and two paid jobs of 100 and 50 under
  contracts with a musician and a programmer, and a second client without any job.\<close>

definition harry :: profile where
  "harry = \<lparr>pid = 1, firstName = ''Harry'', lastName = ''Potter'', profession = ''Wizard'',
            balance = 500, ptype = client_type\<rparr>"

definition john :: profile where
  "john = \<lparr>pid = 2, firstName = ''John'', lastName = ''Lenon'', profession = ''Musician'',
           balance = 64, ptype = contractor_type\<rparr>"

definition linus :: profile where
  "linus = \<lparr>pid = 3, firstName = ''Linus'', lastName = ''Torvalds'', profession = ''Programmer'',
            balance = 1214, ptype = contractor_type\<rparr>"

definition ash :: profile where
  "ash = \<lparr>pid = 4, firstName = ''Ash'', lastName = ''Kethcum'', profession = ''Trainer'',
          balance = 20, ptype = client_type\<rparr>"

definition contract1 :: contract where
  "contract1 = \<lparr>cid = 1, terms = ''bla bla bla'', status = in_progress,
                createdAt = ''2020-08-01'', ClientId = 1, ContractorId = 2\<rparr>"

definition contract2 :: contract where
  "contract2 = \<lparr>cid = 2, terms = ''bla bla bla'', status = in_progress,
                createdAt = ''2020-08-02'', ClientId = 1, ContractorId = 3\<rparr>"

definition job1 :: job where
  "job1 = \<lparr>jid = 1, description = ''work'', price = 200, paid = False,
           paymentDate = None, ContractId = 1\<rparr>"

definition job2 :: job where
  "job2 = \<lparr>jid = 2, description = ''work'', price = 800, paid = False,
           paymentDate = None, ContractId = 2\<rparr>"

definition job3 :: job where
  "job3 = \<lparr>jid = 3, description = ''work'', price = 100, paid = True,
           paymentDate = Some ''2020-08-15'', ContractId = 1\<rparr>"

definition job4 :: job where
  "job4 = \<lparr>jid = 4, description = ''work'', price = 50, paid = True,
           paymentDate = Some ''2020-08-16'', ContractId = 2\<rparr>"

definition ledger :: db where
  "ledger = \<lparr>profiles = [harry, john, linus, ash], contracts = [contract1, contract2],
             jobs = [job1, job2, job3, job4]\<rparr>"

text \<open>A request by the given caller; the handlers read the fields they need.\<close>

definition request_of :: "profile \<Rightarrow> request" where
  "request_of p = \<lparr>req_profile = p, job_id = 1, userId = 1, depositAmount = 250,
                   query_start = Some ''2020-08-10'', query_end = Some ''2020-08-20'',
                   query_limit = None\<rparr>"

section \<open>Lemmas about the store\<close>

lemmas ledger_defs = ledger_def harry_def john_def linus_def ash_def contract1_def contract2_def
  job1_def job2_def job3_def job4_def request_of_def findByPk_def

lemma findByPk_Some: "findByPk key rows k = Some r \<Longrightarrow> key r = k \<and> r \<in> set rows"
  by (auto simp: findByPk_def find_Some_iff)

lemma find_profile_updated:
  "find (\<lambda>r. pid r = k') (map (\<lambda>p. if pid p = k then p\<lparr>balance := v\<rparr> else p) ps) =
     (if k' = k then map_option (\<lambda>p. p\<lparr>balance := v\<rparr>) (find (\<lambda>r. pid r = k') ps)
      else find (\<lambda>r. pid r = k') ps)"
  by (induction ps) auto

lemma findByPk_save_balance:
  "findByPk pid (profiles (save_balance k v d)) k' =
     (if k' = k then map_option (\<lambda>p. p\<lparr>balance := v\<rparr>) (findByPk pid (profiles d) k')
      else findByPk pid (profiles d) k')"
  by (simp add: findByPk_def save_balance_def find_profile_updated)



lemma save_frames [simp]:
  "profiles (save_paid k b t d) = profiles d"
  "contracts (save_paid k b t d) = contracts d"
  "jobs (save_balance k' v d) = jobs d"
  "contracts (save_balance k' v d) = contracts d"
  by (simp_all add: save_paid_def save_balance_def)

section \<open>Paying for a job: properties\<close>

text \<open>What a successful payment has gone through.\<close>

lemma pay_success_cases:
  assumes "fst (pay now req d) = Response 200 (MessageJson ''Payment successful'')"
  obtains job Contract client contractor where
    "findByPk jid (jobs d) (job_id req) = Some job" "\<not> paid job"
    "findByPk cid (contracts d) (ContractId job) = Some Contract"
    "ClientId Contract = pid (req_profile req)"
    "findByPk pid (profiles d) (ClientId Contract) = Some client"
    "findByPk pid (profiles d) (ContractorId Contract) = Some contractor"
    "\<not> balance client < price job"
    "snd (pay now req d) =
       save_paid (jid job) True now
         (save_balance (pid contractor) (balance contractor + price job)
           (save_balance (pid client) (balance client - price job) d))"
  using assms
  by (auto simp: pay_def transaction_def pay_callback_def Let_def
           split: option.splits if_splits sum.splits)



text \<open>Outside that invariant, when the client of the contract is also its contractor,
  the handler loads the profile twice and writes both copies; the contractor's copy is
  written last, so the stored balance is the old one plus the price.\<close>

lemma pay_self_contract:
  assumes "fst (pay now req d) = Response 200 (MessageJson ''Payment successful'')"
      and "findByPk jid (jobs d) (job_id req) = Some job"
      and "findByPk cid (contracts d) (ContractId job) = Some Contract"
      and "ClientId Contract = ContractorId Contract"
      and "findByPk pid (profiles d) (ClientId Contract) = Some client"
  shows "findByPk pid (profiles (snd (pay now req d))) (ClientId Contract) =
           Some (client\<lparr>balance := balance client + price job\<rparr>)"
proof -
  from assms(1) obtain job' Contract' client' contractor' where
    j: "findByPk jid (jobs d) (job_id req) = Some job'" and
    c: "findByPk cid (contracts d) (ContractId job') = Some Contract'" and
    cl: "findByPk pid (profiles d) (ClientId Contract') = Some client'" and
    co: "findByPk pid (profiles d) (ContractorId Contract') = Some contractor'" and
    d': "snd (pay now req d) =
       save_paid (jid job') True now
         (save_balance (pid contractor') (balance contractor' + price job')
           (save_balance (pid client') (balance client' - price job') d))"
    by (rule pay_success_cases)
  from j assms(2) have job: "job' = job" by simp
  from c assms(3) have Contract: "Contract' = Contract" by (simp add: job)
  from cl assms(5) have client: "client' = client" by (simp add: Contract)
  from co assms(4,5) have contractor: "contractor' = client" by (simp add: Contract)
  from assms(5) have k: "pid client = ClientId Contract" by (simp add: findByPk_Some)
  show ?thesis
    by (simp add: d' job client contractor k findByPk_save_balance assms(5))
qed

text \<open>C2: when the job is already paid, the payment is refused with status 400 and the
  message "Already paid" (the spec's InvalidState), whoever the caller is, and the
  ledger is returned as it was: no balance and no job field changes.\<close>

theorem pay_already_paid:
  assumes "findByPk jid (jobs d) (job_id req) = Some job" and "paid job"
  shows "pay now req d = (Response 400 (ErrorJson (Text ''Already paid'')), d)"
  using assms by (simp add: pay_def transaction_def pay_callback_def)

theorem pay_already_paid_witness:
  "findByPk jid (jobs ledger) (job_id ((request_of harry)\<lparr>job_id := 3\<rparr>)) = Some job3 \<and> paid job3 \<and>
   pay ''2020-08-17'' ((request_of harry)\<lparr>job_id := 3\<rparr>) ledger =
     (Response 400 (ErrorJson (Text ''Already paid'')), ledger)"
proof -
  have h1: "findByPk jid (jobs ledger) (job_id ((request_of harry)\<lparr>job_id := 3\<rparr>)) = Some job3"
    by (simp add: ledger_defs)
  have h2: "paid job3" by (simp add: job3_def)
  from pay_already_paid [OF h1 h2] h1 h2 show ?thesis by simp
qed

text \<open>C4: for an unpaid job under a contract, a caller who is not the contract's client
  is refused with status 400 and the message "Wrong job id" (the spec's Unauthorized),
  and the ledger is returned as it was.\<close>

theorem pay_wrong_caller:
  assumes "findByPk jid (jobs d) (job_id req) = Some job" and "\<not> paid job"
      and "findByPk cid (contracts d) (ContractId job) = Some Contract"
      and "pid (req_profile req) \<noteq> ClientId Contract"
  shows "pay now req d = (Response 400 (ErrorJson (Text ''Wrong job id'')), d)"
  using assms by (auto simp: pay_def transaction_def pay_callback_def Let_def)

text \<open>The contractor of the first contract asks to pay its job of 200.\<close>

theorem pay_wrong_caller_witness:
  "findByPk jid (jobs ledger) (job_id (request_of john)) = Some job1 \<and> \<not> paid job1 \<and>
   findByPk cid (contracts ledger) (ContractId job1) = Some contract1 \<and>
   pid (req_profile (request_of john)) \<noteq> ClientId contract1 \<and>
   pay ''2020-08-17'' (request_of john) ledger =
     (Response 400 (ErrorJson (Text ''Wrong job id'')), ledger)"
proof -
  have h1: "findByPk jid (jobs ledger) (job_id (request_of john)) = Some job1"
    by (simp add: ledger_defs)
  have h2: "\<not> paid job1" by (simp add: job1_def)
  have h3: "findByPk cid (contracts ledger) (ContractId job1) = Some contract1"
    by (simp add: ledger_defs)
  have h4: "pid (req_profile (request_of john)) \<noteq> ClientId contract1"
    by (simp add: ledger_defs)
  from pay_wrong_caller [OF h1 h2 h3 h4] h1 h2 h3 h4 show ?thesis by simp
qed

text \<open>C3, as the spec states it, fails: on the small ledger the job of 800 is unpaid and
  its client's balance of 500 is less than the price, yet a caller who is not the client
  is answered "Wrong job id", not that the balance is insufficient.\<close>

theorem pay_insufficient_counterexample:
  "findByPk jid (jobs ledger) 2 = Some job2 \<and> \<not> paid job2 \<and>
   findByPk cid (contracts ledger) (ContractId job2) = Some contract2 \<and>
   findByPk pid (profiles ledger) (ClientId contract2) = Some harry \<and>
   balance harry < price job2 \<and>
   fst (pay ''2020-08-17'' ((request_of john)\<lparr>job_id := 2\<rparr>) ledger) \<noteq>
     Response 400 (ErrorJson (Text ''Client's balance is insufficient for payment'')) \<and>
   pay ''2020-08-17'' ((request_of john)\<lparr>job_id := 2\<rparr>) ledger =
     (Response 400 (ErrorJson (Text ''Wrong job id'')), ledger)"
  by (simp add: ledger_defs pay_def transaction_def pay_callback_def)

text \<open>C3, amended: for an unpaid job under a contract whose client is the caller and has
  a profile, the payment is refused with the message that the client's balance is
  insufficient (the spec's InsufficientFunds) exactly when the balance is less than the
  price, so a balance equal to the price is enough; when it is refused so, the ledger is
  returned as it was.\<close>

theorem pay_insufficient_iff:
  assumes "findByPk jid (jobs d) (job_id req) = Some job" and "\<not> paid job"
      and "findByPk cid (contracts d) (ContractId job) = Some Contract"
      and "pid (req_profile req) = ClientId Contract"
      and "findByPk pid (profiles d) (ClientId Contract) = Some client"
  shows "(fst (pay now req d) =
            Response 400 (ErrorJson (Text ''Client's balance is insufficient for payment''))
          \<longleftrightarrow> balance client < price job) \<and>
         (balance client < price job \<longrightarrow> snd (pay now req d) = d)"
  using assms
  by (auto simp: pay_def transaction_def pay_callback_def Let_def split: option.splits)

text \<open>The client with a balance of 500 asks to pay the job of 800.\<close>

theorem pay_insufficient_iff_witness:
  "findByPk jid (jobs ledger) (job_id ((request_of harry)\<lparr>job_id := 2\<rparr>)) = Some job2 \<and>
   \<not> paid job2 \<and>
   findByPk cid (contracts ledger) (ContractId job2) = Some contract2 \<and>
   pid (req_profile ((request_of harry)\<lparr>job_id := 2\<rparr>)) = ClientId contract2 \<and>
   findByPk pid (profiles ledger) (ClientId contract2) = Some harry \<and>
   balance harry < price job2 \<and>
   pay ''2020-08-17'' ((request_of harry)\<lparr>job_id := 2\<rparr>) ledger =
     (Response 400 (ErrorJson (Text ''Client's balance is insufficient for payment'')), ledger)"
proof -
  let ?req = "(request_of harry)\<lparr>job_id := 2\<rparr>"
  have h1: "findByPk jid (jobs ledger) (job_id ?req) = Some job2"
    by (simp add: ledger_defs)
  have h2: "\<not> paid job2" by (simp add: job2_def)
  have h3: "findByPk cid (contracts ledger) (ContractId job2) = Some contract2"
    by (simp add: ledger_defs)
  have h4: "pid (req_profile ?req) = ClientId contract2"
    by (simp add: ledger_defs)
  have h5: "findByPk pid (profiles ledger) (ClientId contract2) = Some harry"
    by (simp add: ledger_defs)
  have less: "balance harry < price job2" by (simp add: harry_def job2_def)
  from pay_insufficient_iff [OF h1 h2 h3 h4 h5, of "''2020-08-17''"] less
  have "fst (pay ''2020-08-17'' ?req ledger) =
          Response 400 (ErrorJson (Text ''Client's balance is insufficient for payment''))"
       "snd (pay ''2020-08-17'' ?req ledger) = ledger"
    by simp_all
  then have "pay ''2020-08-17'' ?req ledger =
     (Response 400 (ErrorJson (Text ''Client's balance is insufficient for payment'')), ledger)"
    by (simp add: prod_eq_iff)
  with h1 h2 h3 h4 h5 less show ?thesis by simp
qed

section \<open>Depositing: properties\<close>








lemma deposit_result:
  assumes "findByPk pid (profiles d) (userId req) = Some client"
  shows "deposit req d =
     (if depositAmount req > maxDepositAmount d (userId req)
      then (Response 400 (ErrorJson (Text ''Deposit amount exceeds the maximum allowed'')), d)
      else (Response 200 (MessageJson ''Deposit successful''),
            save_balance (pid client) (balance client + depositAmount req) d))"
  using assms by (simp add: deposit_def transaction_def deposit_callback_def)



text \<open>C6: for an existing profile without an unpaid job under a contract of its own, the
  store's sum is null, the ceiling computed from it is zero, and every deposit of a
  positive amount is refused with the message of the exceeded limit, the ledger being
  left as it was.\<close>

theorem deposit_no_outstanding:
  assumes "findByPk pid (profiles d) (userId req) = Some client"
      and "\<forall>j \<in> set (jobs d). \<forall>c \<in> set (contracts d).
             cid c = ContractId j \<and> ClientId c = userId req \<longrightarrow> paid j"
      and "0 < depositAmount req"
  shows "sum_price (outstandingJobs d (userId req)) = None \<and>
         maxDepositAmount d (userId req) = 0 \<and>
         deposit req d =
           (Response 400 (ErrorJson (Text ''Deposit amount exceeds the maximum allowed'')), d)"
proof -
  have "outstandingJobs d (userId req) = []"
    using assms(2) by (auto simp: outstandingJobs_def)
  then have s: "sum_price (outstandingJobs d (userId req)) = None"
    by (simp add: sum_price_def)
  then have m: "maxDepositAmount d (userId req) = 0"
    by (simp add: maxDepositAmount_def)
  show ?thesis using s m assms(3) by (simp add: deposit_result [OF assms(1)])
qed

text \<open>The second client has no contract at all; a deposit of one hundredth is refused.\<close>

theorem deposit_no_outstanding_witness:
  "findByPk pid (profiles ledger) 4 = Some ash \<and>
   outstandingJobs ledger 4 = [] \<and>
   (0::rat) < 1 / 100 \<and>
   deposit ((request_of ash)\<lparr>userId := 4, depositAmount := 1 / 100\<rparr>) ledger =
     (Response 400 (ErrorJson (Text ''Deposit amount exceeds the maximum allowed'')), ledger)"
proof -
  let ?req = "(request_of ash)\<lparr>userId := 4, depositAmount := 1 / 100\<rparr>"
  have h1: "findByPk pid (profiles ledger) (userId ?req) = Some ash"
    by (simp add: ledger_defs)
  have h2: "\<forall>j \<in> set (jobs ledger). \<forall>c \<in> set (contracts ledger).
             cid c = ContractId j \<and> ClientId c = userId ?req \<longrightarrow> paid j"
    by (simp add: ledger_defs)
  have h3: "0 < depositAmount ?req" by (simp add: request_of_def)
  have e: "outstandingJobs ledger 4 = []"
    by (simp add: outstandingJobs_def ledger_defs)
  from deposit_no_outstanding [OF h1 h2 h3] h1 e show ?thesis by simp
qed



text \<open>C10: the deposit handler does not read the caller's profile. Two requests that
  differ in the caller only get the same response and leave the same ledger, so any
  caller can deposit into any profile's balance.\<close>

theorem deposit_ignores_caller:
  "deposit (req\<lparr>req_profile := caller1\<rparr>) d = deposit (req\<lparr>req_profile := caller2\<rparr>) d"
  by (simp add: deposit_def)

section \<open>The reports: properties\<close>
























text \<open>C8: when the start or the end parameter is missing, both reports answer 400 with
  the message "Both start and end parameters are required" (the spec's InvalidInput).
  The answer is the same for every ledger and the ledger is returned as it was: the
  handler returns before it asks the store anything.\<close>

theorem reports_require_bounds:
  assumes "query_start req = None \<or> query_end req = None"
  shows "best_profession req d =
           (Response 400 (ErrorJson (Text ''Both start and end parameters are required'')), d) \<and>
         best_clients req d =
           (Response 400 (ErrorJson (Text ''Both start and end parameters are required'')), d)"
  using assms by (auto simp: best_profession_def best_clients_def bounds_required_def)

theorem reports_require_bounds_witness:
  "query_start ((request_of john)\<lparr>query_start := None\<rparr>) = None \<and>
   best_profession ((request_of john)\<lparr>query_start := None\<rparr>) ledger =
     (Response 400 (ErrorJson (Text ''Both start and end parameters are required'')), ledger) \<and>
   best_clients ((request_of john)\<lparr>query_start := None\<rparr>) ledger =
     (Response 400 (ErrorJson (Text ''Both start and end parameters are required'')), ledger) \<and>
   query_end ((request_of john)\<lparr>query_end := None\<rparr>) = None \<and>
   best_profession ((request_of john)\<lparr>query_end := None\<rparr>) ledger =
     (Response 400 (ErrorJson (Text ''Both start and end parameters are required'')), ledger) \<and>
   best_clients ((request_of john)\<lparr>query_end := None\<rparr>) ledger =
     (Response 400 (ErrorJson (Text ''Both start and end parameters are required'')), ledger)"
proof -
  have h1: "query_start ((request_of john)\<lparr>query_start := None\<rparr>) = None \<or>
            query_end ((request_of john)\<lparr>query_start := None\<rparr>) = None"
    by simp
  have h2: "query_start ((request_of john)\<lparr>query_end := None\<rparr>) = None \<or>
            query_end ((request_of john)\<lparr>query_end := None\<rparr>) = None"
    by simp
  from reports_require_bounds [OF h1, of ledger] reports_require_bounds [OF h2, of ledger]
  show ?thesis by simp
qed

end
